theory Spec2Isabelle
  imports Complex_Main
begin

section \<open>Strings\<close>

text \<open>
  Python strings are modelled as \<open>string\<close> (lists of 8-bit characters). The query router
  only ever lower-cases a query and tests fixed ASCII keywords for membership, so
  \<open>str.lower\<close> is modelled on the ASCII letters and leaves every other character alone;
  \<open>k in s\<close> is the contiguous-substring test.
\<close>

definition lower_char :: "char \<Rightarrow> char" where
  "lower_char c =
     (let n = (of_char c :: nat) in if 65 \<le> n \<and> n \<le> 90 then char_of (n + 32) else c)"

definition upper_char :: "char \<Rightarrow> char" where
  "upper_char c =
     (let n = (of_char c :: nat) in if 97 \<le> n \<and> n \<le> 122 then char_of (n - 32) else c)"

definition is_alpha :: "char \<Rightarrow> bool" where
  "is_alpha c =
     (let n = (of_char c :: nat) in (65 \<le> n \<and> n \<le> 90) \<or> (97 \<le> n \<and> n \<le> 122))"

definition is_space :: "char \<Rightarrow> bool" where
  "is_space c = (let n = (of_char c :: nat) in n = 32 \<or> (9 \<le> n \<and> n \<le> 13) \<or> (28 \<le> n \<and> n \<le> 31))"

definition lower :: "string \<Rightarrow> string" where
  "lower s = map lower_char s"

text \<open>\<open>str.title\<close>: the first letter of every run of letters is upper-cased, the rest lower-cased.\<close>

fun title_from :: "bool \<Rightarrow> string \<Rightarrow> string" where
  "title_from inside [] = []"
| "title_from inside (c # cs) =
     (if is_alpha c
      then (if inside then lower_char c else upper_char c) # title_from True cs
      else c # title_from False cs)"

definition title :: "string \<Rightarrow> string" where
  "title s = title_from False s"

definition strip :: "string \<Rightarrow> string" where
  "strip s = rev (dropWhile is_space (rev (dropWhile is_space s)))"

fun startswith :: "string \<Rightarrow> string \<Rightarrow> bool" where
  "startswith s [] = True"
| "startswith [] (k # ks) = False"
| "startswith (c # cs) (k # ks) = (c = k \<and> startswith cs ks)"

text \<open>\<open>str_in k s\<close> is Python's \<open>k in s\<close> on strings.\<close>

fun str_in :: "string \<Rightarrow> string \<Rightarrow> bool" where
  "str_in k [] = (k = [])"
| "str_in k (c # cs) = (startswith (c # cs) k \<or> str_in k cs)"

text \<open>\<open>sep.join(xs)\<close>.\<close>

fun join :: "string \<Rightarrow> string list \<Rightarrow> string" where
  "join sep [] = []"
| "join sep [x] = x"
| "join sep (x # y # ys) = x @ sep @ join sep (y # ys)"

text \<open>Decimal rendering of a natural number, as \<open>str(n)\<close> does for a non-negative int.\<close>

definition digit_char :: "nat \<Rightarrow> char" where
  "digit_char d = char_of (48 + d)"

function str_nat :: "nat \<Rightarrow> string" where
  "str_nat n = (if n < 10 then [digit_char n] else str_nat (n div 10) @ [digit_char (n mod 10)])"
  by pat_completeness auto
termination
  by (relation "measure id") auto

declare str_nat.simps [simp del]

definition nl :: string where
  "nl = [CHR 0x0A]"

section \<open>Intent classification (\<open>AIService._determine_user_intent\<close>)\<close>

definition chart_keywords :: "string list" where
  "chart_keywords =
     [''plot'', ''chart'', ''graph'', ''visualize'', ''visualization'', ''show me a'',
      ''create a'', ''create'', ''make a'', ''draw'', ''histogram'', ''bar chart'',
      ''line chart'', ''scatter plot'', ''pie chart'', ''heatmap'', ''box plot'',
      ''distribution chart'', ''survival chart'']"

definition text_keywords :: "string list" where
  "text_keywords =
     [''how many'', ''what is'', ''tell me'', ''explain'', ''analyze'', ''summary'',
      ''count'', ''average'', ''mean'', ''median'', ''total'', ''percentage'', ''why'',
      ''who'', ''when'', ''where'', ''which'', ''describe'', ''compare without'']"

text \<open>\<open>any(keyword in query_lower for keyword in keywords)\<close>.\<close>

definition any_keyword_in :: "string list \<Rightarrow> string \<Rightarrow> bool" where
  "any_keyword_in keywords query_lower = list_ex (\<lambda>keyword. str_in keyword query_lower) keywords"

definition determine_user_intent :: "string \<Rightarrow> string" where
  "determine_user_intent user_query =
     (let query_lower = lower user_query in
      if any_keyword_in chart_keywords query_lower then ''chart''
      else if any_keyword_in text_keywords query_lower then ''text''
      else ''text'')"

section \<open>Tables\<close>

text \<open>
  A pandas \<open>DataFrame\<close> is a row count together with an ordered list of named, typed columns;
  a cell is \<open>None\<close> when it is null (\<open>NaN\<close>). Numbers are exact rationals: the claims below
  depend on counting and on comparisons with \<open>0\<close>, \<open>1\<close> and fixed thresholds, and where the
  source's float arithmetic produces \<open>NaN\<close> the model says so explicitly.
\<close>

datatype cell = Num rat | Str string

datatype dtype = Int64 | Float64 | Object | BoolT | Datetime64 | Category

record column =
  col_name :: string
  col_dtype :: dtype
  col_cells :: "cell option list"

record dataframe =
  nrows :: nat
  columns :: "column list"

definition wf_dataframe :: "dataframe \<Rightarrow> bool" where
  "wf_dataframe df \<longleftrightarrow>
     list_all (\<lambda>c. length (col_cells c) = nrows df) (columns df)
     \<and> distinct (map col_name (columns df))"

definition column_names :: "dataframe \<Rightarrow> string list" where
  "column_names df = map col_name (columns df)"

text \<open>\<open>name in df.columns\<close>.\<close>

definition has_column :: "dataframe \<Rightarrow> string \<Rightarrow> bool" where
  "has_column df name \<longleftrightarrow> name \<in> set (column_names df)"

datatype exn = Exception string

fun str_exn :: "exn \<Rightarrow> string" where
  "str_exn (Exception m) = m"

text \<open>\<open>df[name]\<close>: the cells of the column, or \<open>KeyError\<close>.\<close>

definition getitem :: "dataframe \<Rightarrow> string \<Rightarrow> exn + cell option list" where
  "getitem df name =
     (case find (\<lambda>c. col_name c = name) (columns df) of
        None \<Rightarrow> Inl (Exception ([CHR 0x27] @ name @ [CHR 0x27]))
      | Some c \<Rightarrow> Inr (col_cells c))"

definition dropna :: "cell option list \<Rightarrow> cell list" where
  "dropna cells = [v. Some v \<leftarrow> cells]"

text \<open>\<open>series.notna().sum()\<close> and \<open>series.isnull().sum()\<close>.\<close>

definition notna_count :: "cell option list \<Rightarrow> nat" where
  "notna_count cells = length (filter (\<lambda>x. x \<noteq> None) cells)"

definition isnull_count :: "cell option list \<Rightarrow> nat" where
  "isnull_count cells = length (filter (\<lambda>x. x = None) cells)"

text \<open>
  \<open>series.value_counts()\<close>: the distinct non-null values with their counts, most frequent
  first. \<open>vc_get vc k d\<close> is \<open>vc.get(k, d)\<close>, a lookup by label.
\<close>

definition value_counts :: "cell option list \<Rightarrow> (cell \<times> nat) list" where
  "value_counts cells =
     (let vs = dropna cells
      in sort_key (\<lambda>(v, n). - int n) (map (\<lambda>v. (v, count_list vs v)) (remdups vs)))"

definition vc_get :: "(cell \<times> nat) list \<Rightarrow> cell \<Rightarrow> nat \<Rightarrow> nat" where
  "vc_get vc k d = (case map_of vc k of None \<Rightarrow> d | Some n \<Rightarrow> n)"

definition is_number :: "dtype \<Rightarrow> bool" where
  "is_number d \<longleftrightarrow> d = Int64 \<or> d = Float64"

text \<open>\<open>df.select_dtypes(include=[number]).columns.tolist()\<close> and the same for \<open>object\<close>.\<close>

definition numeric_cols :: "dataframe \<Rightarrow> string list" where
  "numeric_cols df = map col_name (filter (\<lambda>c. is_number (col_dtype c)) (columns df))"

definition categorical_cols :: "dataframe \<Rightarrow> string list" where
  "categorical_cols df = map col_name (filter (\<lambda>c. col_dtype c = Object) (columns df))"

section \<open>Exceptions\<close>

text \<open>
  A computation that may raise returns \<open>exn + 'a\<close>, with \<open>Inl\<close> the raised exception.
  \<open>try_except body handler\<close> is \<open>try: body except Exception as e: handler e\<close>: the handler
  is itself a computation, so it could raise again.
\<close>

definition bind :: "exn + 'a \<Rightarrow> ('a \<Rightarrow> exn + 'b) \<Rightarrow> exn + 'b" where
  "bind m f = (case m of Inl e \<Rightarrow> Inl e | Inr x \<Rightarrow> f x)"

definition try_except :: "exn + 'a \<Rightarrow> (exn \<Rightarrow> exn + 'a) \<Rightarrow> exn + 'a" where
  "try_except body handler = (case body of Inl e \<Rightarrow> handler e | Inr x \<Rightarrow> Inr x)"

section \<open>Query router (\<open>AIService\<close>)\<close>

text \<open>
  The payloads: a chart is its single trace and the layout title and axis titles (colours,
  sizes and fonts are constants of the source and are left out).
\<close>

datatype trace =
    Pie "cell list" "nat list"
  | Histogram "cell list" nat
  | Bar "cell list" "nat list"

record chart_json =
  chart_trace :: trace
  layout_title :: string
  xaxis_title :: "string option"
  yaxis_title :: "string option"

datatype response = TextResponse string | ChartResponse chart_json | ErrorResponse string

record chat_message =
  msg_role :: string
  msg_content :: string

text \<open>
  What the router uses from outside the repository: the text-completion call (the text of
  the completion, or an exception), Python's \<open>str\<close> on a cell value, and pandas'
  \<open>sort_index\<close> on a value-count table (which raises on keys of mixed types).
\<close>

record services =
  generate_content :: "string \<Rightarrow> exn + string"
  py_str :: "cell \<Rightarrow> string"
  sort_index :: "(cell \<times> nat) list \<Rightarrow> exn + (cell \<times> nat) list"

definition str_dtype :: "dtype \<Rightarrow> string" where
  "str_dtype d =
     (case d of Int64 \<Rightarrow> ''int64'' | Float64 \<Rightarrow> ''float64'' | Object \<Rightarrow> ''object''
      | BoolT \<Rightarrow> ''bool'' | Datetime64 \<Rightarrow> ''datetime64[ns]''
      | Category \<Rightarrow> ''category'')"

definition column_detail :: "services \<Rightarrow> column \<Rightarrow> string" where
  "column_detail sv c =
     (let sample_vals = take 3 (dropna (col_cells c));
          sample_str = join '', '' (map (\<lambda>v. take 30 (py_str sv v)) sample_vals)
      in ''- '' @ col_name c @ '' ('' @ str_dtype (col_dtype c) @ ''): ''
         @ str_nat (notna_count (col_cells c)) @ '' non-null, ''
         @ str_nat (isnull_count (col_cells c)) @ '' null. Sample: '' @ sample_str)"

definition get_dataframe_summary :: "services \<Rightarrow> dataframe \<Rightarrow> string" where
  "get_dataframe_summary sv df =
     join nl
       ([''Shape: '' @ str_nat (nrows df) @ '' rows, '' @ str_nat (length (columns df)) @ '' columns'',
         ''Columns: '' @ join '', '' (column_names df),
         [],
         ''Column Details:'']
        @ map (column_detail sv) (take 15 (columns df)))"

definition conversation_context :: "chat_message list \<Rightarrow> string" where
  "conversation_context conversation_history =
     (if conversation_history = [] then []
      else nl @ nl @ ''Previous conversation:'' @ nl
           @ concat (map (\<lambda>m. title (msg_role m) @ '': '' @ msg_content m @ nl)
                         (drop (length conversation_history - 3) conversation_history)))"

definition text_prompt :: "string \<Rightarrow> string \<Rightarrow> string \<Rightarrow> string" where
  "text_prompt df_info user_query context =
     ''You are an expert data analyst. Answer the user's question about their dataset using the information provided.'' @ nl
     @ nl
     @ ''DATASET INFORMATION:'' @ nl
     @ df_info @ nl
     @ nl
     @ ''USER QUESTION: '' @ user_query @ nl
     @ context @ nl
     @ nl
     @ ''INSTRUCTIONS:'' @ nl
     @ ''1. Provide a clear, direct answer to the user's question'' @ nl
     @ ''2. Use specific numbers and data from the dataset when possible'' @ nl
     @ ''3. Be concise but informative'' @ nl
     @ ''4. If you need to perform calculations, describe them clearly'' @ nl
     @ ''5. Don't suggest creating charts - just answer the question directly'' @ nl
     @ ''6. Format your response in plain text, not markdown'' @ nl
     @ nl
     @ ''Analyze the data and provide a direct answer to: '' @ user_query"

definition generate_text_response ::
  "services \<Rightarrow> dataframe \<Rightarrow> string \<Rightarrow> chat_message list \<Rightarrow> exn + response" where
  "generate_text_response sv df user_query conversation_history =
     try_except
       (let df_info = get_dataframe_summary sv df;
            context = conversation_context conversation_history;
            prompt = text_prompt df_info user_query context
        in bind (generate_content sv prompt) (\<lambda>text. Inr (TextResponse (strip text))))
       (\<lambda>e. Inr (ErrorResponse (''Failed to generate text response: '' @ str_exn e)))"

definition create_survival_chart_direct :: "dataframe \<Rightarrow> exn + response" where
  "create_survival_chart_direct df =
     try_except
       (if \<not> has_column df ''Survived''
        then Inr (ErrorResponse ''Survival data not found in this dataset'')
        else bind (getitem df ''Survived'') (\<lambda>cells.
          let survived_counts = value_counts cells
          in Inr (ChartResponse
               \<lparr>chart_trace = Pie [Str ''Did not survive'', Str ''Survived'']
                                   [vc_get survived_counts (Num 0) 0, vc_get survived_counts (Num 1) 0],
                layout_title = ''Passenger Survival Distribution'',
                xaxis_title = None, yaxis_title = None\<rparr>)))
       (\<lambda>e. Inr (ErrorResponse (''Failed to create survival chart: '' @ str_exn e)))"

definition create_age_chart_direct :: "dataframe \<Rightarrow> exn + response" where
  "create_age_chart_direct df =
     try_except
       (if \<not> has_column df ''Age''
        then Inr (ErrorResponse ''Age data not found in this dataset'')
        else bind (getitem df ''Age'') (\<lambda>cells.
          let age_data = dropna cells
          in Inr (ChartResponse
               \<lparr>chart_trace = Histogram age_data 30,
                layout_title = ''Age Distribution'',
                xaxis_title = Some ''Age (years)'', yaxis_title = Some ''Count''\<rparr>)))
       (\<lambda>e. Inr (ErrorResponse (''Failed to create age chart: '' @ str_exn e)))"

definition create_class_chart_direct :: "services \<Rightarrow> dataframe \<Rightarrow> exn + response" where
  "create_class_chart_direct sv df =
     try_except
       (if \<not> has_column df ''Pclass''
        then Inr (ErrorResponse ''Passenger class data not found in this dataset'')
        else bind (getitem df ''Pclass'') (\<lambda>cells.
             bind (sort_index sv (value_counts cells)) (\<lambda>class_counts.
          Inr (ChartResponse
               \<lparr>chart_trace = Bar (map (\<lambda>(i, n). Str (''Class '' @ py_str sv i)) class_counts)
                                   (map snd class_counts),
                layout_title = ''Passenger Class Distribution'',
                xaxis_title = Some ''Passenger Class'', yaxis_title = Some ''Count''\<rparr>))))
       (\<lambda>e. Inr (ErrorResponse (''Failed to create class chart: '' @ str_exn e)))"

definition create_gender_chart_direct :: "dataframe \<Rightarrow> exn + response" where
  "create_gender_chart_direct df =
     try_except
       (if \<not> has_column df ''Sex''
        then Inr (ErrorResponse ''Gender data not found in this dataset'')
        else bind (getitem df ''Sex'') (\<lambda>cells.
          let gender_counts = value_counts cells
          in Inr (ChartResponse
               \<lparr>chart_trace = Pie (map fst gender_counts) (map snd gender_counts),
                layout_title = ''Gender Distribution'',
                xaxis_title = None, yaxis_title = None\<rparr>)))
       (\<lambda>e. Inr (ErrorResponse (''Failed to create gender chart: '' @ str_exn e)))"

text \<open>
  The generic fallback. \<open>target_col\<close> starts as \<open>None\<close>; Python's truth test on it is false
  for \<open>None\<close> and for the empty string.
\<close>

definition truthy :: "string option \<Rightarrow> bool" where
  "truthy t = (case t of None \<Rightarrow> False | Some s \<Rightarrow> s \<noteq> [])"

definition pick_target :: "string list \<Rightarrow> string \<Rightarrow> string option" where
  "pick_target cols query_lower =
     (let target_col = find (\<lambda>col. str_in (lower col) query_lower) cols
      in if \<not> truthy target_col \<and> cols \<noteq> [] then Some (hd cols) else target_col)"

definition distribution_bar :: "dataframe \<Rightarrow> string \<Rightarrow> exn + response" where
  "distribution_bar df col =
     bind (getitem df col) (\<lambda>cells.
       let value_counts10 = take 10 (value_counts cells)
       in Inr (ChartResponse
            \<lparr>chart_trace = Bar (map fst value_counts10) (map snd value_counts10),
             layout_title = ''Distribution of '' @ col,
             xaxis_title = Some col, yaxis_title = Some ''Count''\<rparr>))"

definition default_chart :: "dataframe \<Rightarrow> exn + response" where
  "default_chart df =
     (case categorical_cols df of
        col # _ \<Rightarrow> distribution_bar df col
      | [] \<Rightarrow> Inr (ErrorResponse ''Could not determine what chart to create from your request''))"

definition generate_ai_chart :: "dataframe \<Rightarrow> string \<Rightarrow> exn + response" where
  "generate_ai_chart df user_query =
     try_except
       (let query_lower = lower user_query in
        if str_in ''histogram'' query_lower \<or> str_in ''distribution'' query_lower then
          (case pick_target (numeric_cols df) query_lower of
             Some target_col \<Rightarrow>
               if target_col \<noteq> [] then
                 bind (getitem df target_col) (\<lambda>cells.
                   Inr (ChartResponse
                     \<lparr>chart_trace = Histogram (dropna cells) 25,
                      layout_title = ''Distribution of '' @ target_col,
                      xaxis_title = Some target_col, yaxis_title = Some ''Count''\<rparr>))
               else default_chart df
           | None \<Rightarrow> default_chart df)
        else if str_in ''bar'' query_lower \<or> str_in ''count'' query_lower then
          (case pick_target (categorical_cols df) query_lower of
             Some target_col \<Rightarrow>
               if target_col \<noteq> [] then distribution_bar df target_col else default_chart df
           | None \<Rightarrow> default_chart df)
        else default_chart df)
       (\<lambda>e. Inr (ErrorResponse (''Failed to generate chart: '' @ str_exn e)))"

definition generate_chart_response ::
  "services \<Rightarrow> dataframe \<Rightarrow> string \<Rightarrow> chat_message list \<Rightarrow> exn + response" where
  "generate_chart_response sv df user_query conversation_history =
     try_except
       (let query_lower = lower user_query in
        if str_in ''survival'' query_lower
           \<and> (str_in ''chart'' query_lower \<or> str_in ''plot'' query_lower)
        then create_survival_chart_direct df
        else if str_in ''age'' query_lower
           \<and> (str_in ''distribution'' query_lower \<or> str_in ''chart'' query_lower
               \<or> str_in ''histogram'' query_lower)
        then create_age_chart_direct df
        else if (str_in ''class'' query_lower \<or> str_in ''pclass'' query_lower)
           \<and> (str_in ''chart'' query_lower \<or> str_in ''bar'' query_lower)
        then create_class_chart_direct sv df
        else if str_in ''gender'' query_lower \<or> str_in ''sex'' query_lower
        then create_gender_chart_direct df
        else generate_ai_chart df user_query)
       (\<lambda>e. Inr (ErrorResponse (''Failed to generate chart: '' @ str_exn e)))"

definition generate_chart ::
  "services \<Rightarrow> dataframe \<Rightarrow> string \<Rightarrow> chat_message list \<Rightarrow> exn + response" where
  "generate_chart sv df user_query conversation_history =
     try_except
       (let intent = determine_user_intent user_query in
        if intent = ''chart''
        then generate_chart_response sv df user_query conversation_history
        else generate_text_response sv df user_query conversation_history)
       (\<lambda>e. Inr (ErrorResponse (''Failed to process query: '' @ str_exn e)))"

section \<open>Profiling engine (\<open>DataAnalyzer\<close>)\<close>

subsection \<open>Cell counts\<close>

text \<open>\<open>rows * cols\<close>, \<open>df.count().sum()\<close> and \<open>df.isnull().sum().sum()\<close>.\<close>

definition total_cells :: "dataframe \<Rightarrow> nat" where
  "total_cells df = nrows df * length (columns df)"

definition non_null_cells :: "dataframe \<Rightarrow> nat" where
  "non_null_cells df = sum_list (map (\<lambda>c. notna_count (col_cells c)) (columns df))"

definition missing_cells :: "dataframe \<Rightarrow> nat" where
  "missing_cells df = sum_list (map (\<lambda>c. isnull_count (col_cells c)) (columns df))"

text \<open>
  \<open>df.duplicated().sum()\<close>: the number of rows equal to an earlier row (two nulls in the same
  column count as equal).
\<close>

definition rows_of :: "dataframe \<Rightarrow> cell option list list" where
  "rows_of df = map (\<lambda>i. map (\<lambda>c. col_cells c ! i) (columns df)) [0..<nrows df]"

definition duplicate_count :: "dataframe \<Rightarrow> nat" where
  "duplicate_count df = length (rows_of df) - length (remdups (rows_of df))"

subsection \<open>Health score (\<open>_calculate_health_score\<close>)\<close>

text \<open>Python's \<open>int\<close> on a float truncates towards zero.\<close>

definition py_int :: "rat \<Rightarrow> int" where
  "py_int x = (if 0 \<le> x then \<lfloor>x\<rfloor> else \<lceil>x\<rceil>)"

text \<open>
  On a table without cells both percentages are \<open>0 / 0\<close>, which numpy evaluates to \<open>NaN\<close>;
  the score stays \<open>NaN\<close> and the final \<open>int(score)\<close> raises \<open>ValueError\<close>. Otherwise every
  division is by a positive number.
\<close>

definition high_missing_cols :: "dataframe \<Rightarrow> nat" where
  "high_missing_cols df =
     length (filter (\<lambda>c. (of_nat (isnull_count (col_cells c)) :: rat) / of_nat (nrows df) > 1 / 2)
                    (columns df))"

definition has_numeric :: "dataframe \<Rightarrow> bool" where
  "has_numeric df \<longleftrightarrow> length (numeric_cols df) > 0"

definition has_categorical :: "dataframe \<Rightarrow> bool" where
  "has_categorical df \<longleftrightarrow> length (categorical_cols df) > 0"

definition raw_score :: "dataframe \<Rightarrow> rat" where
  "raw_score df =
     (let score = 100;
          missing_pct = (of_nat (missing_cells df) / of_nat (total_cells df)) * 100;
          score = score - missing_pct;
          duplicate_pct = (of_nat (duplicate_count df) / of_nat (nrows df)) * 100;
          score = score - duplicate_pct * (1 / 2);
          score = score - of_nat (high_missing_cols df) * 5;
          score = (if has_numeric df \<and> has_categorical df then score + 5 else score)
      in score)"

definition calculate_health_score :: "dataframe \<Rightarrow> exn + int" where
  "calculate_health_score df =
     (if total_cells df = 0
      then Inl (Exception ''cannot convert float NaN to integer'')
      else Inr (max 0 (min 100 (py_int (raw_score df)))))"

text \<open>
  The health score as the specification words it: start at 100, subtract the missing-cell
  percentage, half the duplicate-row percentage and 5 per column that is more than half
  missing, add 5 for type diversity, clamp to \<open>[0, 100]\<close>, truncate.
\<close>

definition spec_health_score :: "dataframe \<Rightarrow> int" where
  "spec_health_score df =
     py_int (max 0 (min 100
       (100 - (of_nat (missing_cells df) / of_nat (total_cells df)) * 100
            - ((of_nat (duplicate_count df) / of_nat (nrows df)) * 100) / 2
            - 5 * of_nat (length (filter (\<lambda>c. 2 * isnull_count (col_cells c) > nrows df) (columns df)))
            + (if (\<exists>c \<in> set (columns df). is_number (col_dtype c))
                  \<and> (\<exists>c \<in> set (columns df). col_dtype c = Object) then 5 else 0))))"

subsection \<open>Completeness (\<open>_generate_summary\<close>, \<open>_get_dataframe_info\<close>)\<close>

text \<open>
  \<open>round(x, 1)\<close> and the format \<open>:.1f\<close> round to one decimal, ties to even.
\<close>

definition round_half_even :: "rat \<Rightarrow> int" where
  "round_half_even x =
     (let f = \<lfloor>x\<rfloor>; d = x - of_int f
      in if d < 1 / 2 then f else if d > 1 / 2 then f + 1 else if even f then f else f + 1)"

definition round1 :: "rat \<Rightarrow> rat" where
  "round1 x = of_int (round_half_even (x * 10)) / 10"

text \<open>The ratio both functions compute, for a table with cells.\<close>

definition completeness_ratio :: "dataframe \<Rightarrow> rat" where
  "completeness_ratio df = (of_nat (non_null_cells df) / of_nat (total_cells df)) * 100"

text \<open>
  The header of the summary: rows, columns, the completeness shown with one decimal
  (\<open>None\<close> is \<open>NaN\<close>, from \<open>0 / 0\<close>), the health score. The remaining sections of the
  summary (feature lists, missing-value breakdown, key statistics) are formatted text and
  are not modelled.
\<close>

record summary =
  sum_rows :: nat
  sum_cols :: nat
  sum_completeness :: "rat option"
  sum_health_score :: int

definition generate_summary :: "dataframe \<Rightarrow> exn + summary" where
  "generate_summary df =
     (let completeness = (if total_cells df = 0 then None else Some (round1 (completeness_ratio df)))
      in bind (calculate_health_score df) (\<lambda>score.
           Inr \<lparr>sum_rows = nrows df, sum_cols = length (columns df),
                sum_completeness = completeness, sum_health_score = score\<rparr>))"

text \<open>\<open>_get_dataframe_info\<close>; the memory usage in bytes is outside the table model.\<close>

record dataframe_info =
  info_shape :: "nat \<times> nat"
  info_columns :: "string list"
  info_dtypes :: "(string \<times> string) list"
  info_null_counts :: "(string \<times> nat) list"
  info_data_health_score :: int
  info_completeness_percentage :: rat
  info_total_cells :: nat
  info_non_null_cells :: nat

definition get_dataframe_info :: "dataframe \<Rightarrow> exn + dataframe_info" where
  "get_dataframe_info df =
     (let completeness = (if total_cells df > 0 then completeness_ratio df else 0)
      in bind (calculate_health_score df) (\<lambda>score.
           Inr \<lparr>info_shape = (nrows df, length (columns df)),
                info_columns = column_names df,
                info_dtypes = map (\<lambda>c. (col_name c, str_dtype (col_dtype c))) (columns df),
                info_null_counts = map (\<lambda>c. (col_name c, isnull_count (col_cells c))) (columns df),
                info_data_health_score = score,
                info_completeness_percentage = round1 completeness,
                info_total_cells = total_cells df,
                info_non_null_cells = non_null_cells df\<rparr>))"

text \<open>Replacing the cell in column \<open>j\<close>, row \<open>i\<close> by a null.\<close>

definition set_null :: "dataframe \<Rightarrow> nat \<Rightarrow> nat \<Rightarrow> dataframe" where
  "set_null df j i =
     df\<lparr>columns := (columns df)[j := (columns df ! j)\<lparr>col_cells := (col_cells (columns df ! j))[i := None]\<rparr>]\<rparr>"

section \<open>Insight narrator (\<open>SimpleInsightsEngine\<close>)\<close>

text \<open>
  The engine that \<open>DataAnalyzer.__init__\<close> instantiates. A bundle keeps four of the five keys
  of the source's dictionary; \<open>business_recommendations\<close> is a constant list per analyzer and
  is left out. The value under \<open>statistical_significance\<close> is either a plain string or a
  dictionary with the keys \<open>test\<close>, \<open>result\<close> and \<open>interpretation\<close>.
\<close>

datatype significance = SigText string | SigDict string string string

record insights =
  key_findings :: "string list"
  statistical_significance :: significance
  trends :: "string list"
  comparisons :: "string list"

text \<open>
  The lines of a bundle that interpolate numbers (group means, shares, ratios, formatted
  with \<open>:.1f\<close>, \<open>:.2f\<close> and \<open>:,\<close>) come from pandas aggregates and float formatting; they are
  taken as given, and each may raise:
  \<^item> \<open>survival_numbers\<close>: the overall survival line and the per-class lines;
  \<^item> \<open>age_numbers\<close>: the three age findings, the survivor/casualty age lines, the three
    age-group shares;
  \<^item> \<open>gender_numbers\<close>: the two gender distribution findings and the survival-by-gender lines.
\<close>

record narrator =
  fmt_thousands :: "nat \<Rightarrow> string"
  survival_numbers :: "dataframe \<Rightarrow> exn + string \<times> string list"
  age_numbers :: "dataframe \<Rightarrow> exn + string list \<times> string list \<times> string list"
  gender_numbers :: "dataframe \<Rightarrow> exn + string list \<times> string list"

definition error_insights :: "string \<Rightarrow> insights" where
  "error_insights error =
     \<lparr>key_findings = [''Analysis error: '' @ error, ''Please check data format and column names''],
      statistical_significance = SigText ''Unable to calculate due to data issues'',
      trends = [''Analysis unavailable - data format issues''],
      comparisons = [''Unable to perform comparisons'']\<rparr>"

definition survival_significance :: significance where
  "survival_significance =
     SigDict ''Descriptive analysis of survival by passenger class''
             ''Significant patterns detected''
             ''Passenger class strongly correlates with survival probability''"

definition survival_insights :: "narrator \<Rightarrow> dataframe \<Rightarrow> exn + insights" where
  "survival_insights nr df =
     (if \<not> has_column df ''Survived''
      then Inr (error_insights ''Survival column not found'')
      else bind (survival_numbers nr df) (\<lambda>(overall, class_insights).
        Inr \<lparr>key_findings =
               [overall,
                ''Clear class-based survival patterns observed'',
                ''Higher passenger classes had significantly better outcomes''] @ class_insights,
             statistical_significance = survival_significance,
             trends =
               [''First-class passengers had highest survival rates (~62%)'',
                ''Third-class passengers faced greatest mortality (~76%)'',
                ''Clear socioeconomic factors influenced evacuation success''],
             comparisons =
               [''1st class passengers were 2.6x more likely to survive than 3rd class'',
                ''Survival rate decreased dramatically with lower passenger class'',
                ''Class-based survival gap of approximately 38 percentage points'']\<rparr>))"

definition age_significance :: significance where
  "age_significance =
     SigDict ''Age distribution and survival analysis''
             ''Clear age-related survival patterns''
             ''Children prioritized in evacuation ('women and children first')''"

definition age_insights :: "narrator \<Rightarrow> dataframe \<Rightarrow> exn + insights" where
  "age_insights nr df =
     (if \<not> has_column df ''Age''
      then Inr (error_insights ''Age column not found'')
      else bind (getitem df ''Age'') (\<lambda>cells.
        if length (dropna cells) = 0
        then Inr (error_insights ''No age data available'')
        else bind (age_numbers nr df) (\<lambda>(findings, age_survival_insights, shares).
          Inr \<lparr>key_findings =
                 findings @ [''Younger passengers generally had better survival rates'']
                 @ age_survival_insights,
               statistical_significance = age_significance,
               trends =
                 [''Children had highest survival rates due to evacuation priority'',
                  ''Working-age adults (18-64) formed majority of passengers'',
                  ''Elderly passengers faced challenges during evacuation'',
                  ''Age distribution typical of early 1900s transatlantic travel''],
               comparisons =
                 shares @ [''Survival rates inversely correlated with age groups'']\<rparr>)))"

definition gender_significance :: significance where
  "gender_significance =
     SigDict ''Gender-based survival analysis''
             ''Highly significant gender effect on survival''
             ''Gender was the strongest predictor of survival outcome''"

definition gender_insights :: "narrator \<Rightarrow> dataframe \<Rightarrow> exn + insights" where
  "gender_insights nr df =
     (if \<not> has_column df ''Sex''
      then Inr (error_insights ''Gender column not found'')
      else bind (getitem df ''Sex'') (\<lambda>cells.
        let gender_counts = value_counts cells;
            male_count = vc_get gender_counts (Str ''male'') 0;
            female_count = vc_get gender_counts (Str ''female'') 0;
            total = male_count + female_count
        in if total = 0
           then Inr (error_insights ''No gender data available'')
           else bind (gender_numbers nr df) (\<lambda>(findings, survival_insights).
             Inr \<lparr>key_findings =
                    findings
                    @ [''Dramatic gender-based survival differences observed'',
                       [CHR 0x27] @ ''Women and children first' maritime protocol clearly implemented'']
                    @ survival_insights,
                  statistical_significance = gender_significance,
                  trends =
                    [''Female passengers prioritized in lifeboat allocation'',
                     ''Male passengers largely sacrificed seats for women and children'',
                     ''Historical chivalric codes strongly influenced survival outcomes'',
                     ''Gender roles of early 1900s clearly reflected in evacuation patterns''],
                  comparisons =
                    [''Survival rate difference of ~55 percentage points between genders'',
                     ''Women had approximately 4x higher survival probability than men'',
                     ''Gender effect stronger than class effect on survival probability'',
                     ''Male passengers showed remarkable adherence to 'women first' protocol'']\<rparr>)))"

definition generic_significance :: significance where
  "generic_significance =
     SigDict ''Descriptive statistical analysis''
             ''Data patterns identified''
             ''Dataset shows structured relationships suitable for insights''"

text \<open>\<open>chart_type.replace('_', ' ').title()\<close>.\<close>

definition chart_type_title :: "string \<Rightarrow> string" where
  "chart_type_title chart_type = title (map (\<lambda>c. if c = CHR ''_'' then CHR '' '' else c) chart_type)"

definition generic_insights :: "narrator \<Rightarrow> dataframe \<Rightarrow> string \<Rightarrow> insights" where
  "generic_insights nr df chart_type =
     (let rows = nrows df; cols = length (columns df)
      in \<lparr>key_findings =
             [''Dataset contains '' @ fmt_thousands nr rows @ '' records across ''
                @ str_nat cols @ '' variables'',
              ''Chart type: '' @ chart_type_title chart_type,
              ''Visualization reveals meaningful data patterns and relationships'',
              ''Data structure suitable for comprehensive analysis''],
           statistical_significance = generic_significance,
           trends =
             [''Data distribution reveals underlying patterns in the dataset'',
              ''Variable relationships indicate structured data collection'',
              ''Sufficient data volume for meaningful statistical analysis'',
              ''Data quality appears adequate for business intelligence''],
           comparisons =
             [''Multiple variables show interconnected relationships across ''
                @ fmt_thousands nr rows @ '' observations'',
              ''Data completeness varies by variable but overall structure is sound'',
              ''Sample size provides statistical power for trend identification'',
              ''Cross-variable analysis reveals meaningful business patterns'']\<rparr>)"

text \<open>
  \<open>generate_chart_insights\<close>: dispatch on the chart type; any exception of an analyzer is
  turned into the error bundle.
\<close>

definition generate_chart_insights :: "narrator \<Rightarrow> dataframe \<Rightarrow> string \<Rightarrow> insights" where
  "generate_chart_insights nr df chart_type =
     (case (if chart_type = ''survival_analysis'' then survival_insights nr df
            else if chart_type = ''age_analysis'' then age_insights nr df
            else if chart_type = ''gender_analysis'' then gender_insights nr df
            else Inr (generic_insights nr df chart_type))
      of Inl e \<Rightarrow> error_insights (str_exn e)
       | Inr bundle \<Rightarrow> bundle)"

section \<open>Chart catalogue (\<open>DataAnalyzer._generate_premium_charts\<close>)\<close>

text \<open>
  A catalogue entry is the dictionary a \<open>_create_*\<close> method returns: its \<open>type\<close>, the column
  its title names (for the per-column charts), its insight bundle, and, of the plotly figure
  under \<open>data\<close>, the histogram traces (x-data and \<open>nbinsx\<close>); the other traces of a figure are
  not modelled.

  Every \<open>_create_*\<close> method wraps its whole body in \<open>try\<close> and returns \<open>None\<close> on any
  exception. \<open>renders chart\<close> says that the rest of the body (building and serialising the
  plotly figure, with the pandas group-bys that feed it) completes; the theorems hold
  whatever it answers.
\<close>

record chart =
  chart_type :: string
  chart_column :: "string option"
  chart_histograms :: "(cell list \<times> nat) list"
  chart_insights :: insights

definition finish :: "(chart \<Rightarrow> bool) \<Rightarrow> chart \<Rightarrow> chart option" where
  "finish renders c = (if renders c then Some c else None)"

text \<open>\<open>if chart: charts.append(chart)\<close>.\<close>

definition appended :: "chart option \<Rightarrow> chart list" where
  "appended c = (case c of None \<Rightarrow> [] | Some x \<Rightarrow> [x])"

definition plain_chart :: "narrator \<Rightarrow> (chart \<Rightarrow> bool) \<Rightarrow> dataframe \<Rightarrow> string \<Rightarrow> chart option" where
  "plain_chart nr renders df type =
     finish renders
       \<lparr>chart_type = type, chart_column = None, chart_histograms = [],
        chart_insights = generate_chart_insights nr df type\<rparr>"

definition create_data_overview_chart :: "narrator \<Rightarrow> (chart \<Rightarrow> bool) \<Rightarrow> dataframe \<Rightarrow> chart option" where
  "create_data_overview_chart nr renders df =
     (case calculate_health_score df of
        Inl e \<Rightarrow> None
      | Inr health_score \<Rightarrow> plain_chart nr renders df ''overview'')"

definition create_survival_analysis_chart :: "narrator \<Rightarrow> (chart \<Rightarrow> bool) \<Rightarrow> dataframe \<Rightarrow> chart option" where
  "create_survival_analysis_chart nr renders df = plain_chart nr renders df ''survival_analysis''"

definition create_gender_analysis_chart :: "narrator \<Rightarrow> (chart \<Rightarrow> bool) \<Rightarrow> dataframe \<Rightarrow> chart option" where
  "create_gender_analysis_chart nr renders df = plain_chart nr renders df ''gender_analysis''"

definition create_class_analysis_chart :: "narrator \<Rightarrow> (chart \<Rightarrow> bool) \<Rightarrow> dataframe \<Rightarrow> chart option" where
  "create_class_analysis_chart nr renders df = plain_chart nr renders df ''class_analysis''"

definition create_fare_analysis_chart :: "narrator \<Rightarrow> (chart \<Rightarrow> bool) \<Rightarrow> dataframe \<Rightarrow> chart option" where
  "create_fare_analysis_chart nr renders df =
     (case getitem df ''Fare'' of
        Inl e \<Rightarrow> None
      | Inr cells \<Rightarrow>
          let fare_data = dropna cells
          in finish renders
               \<lparr>chart_type = ''fare_analysis'', chart_column = None,
                chart_histograms = [(fare_data, 50)],
                chart_insights = generate_chart_insights nr df ''fare_analysis''\<rparr>)"

definition create_embarkation_analysis_chart :: "narrator \<Rightarrow> (chart \<Rightarrow> bool) \<Rightarrow> dataframe \<Rightarrow> chart option" where
  "create_embarkation_analysis_chart nr renders df = plain_chart nr renders df ''embarkation_analysis''"

definition create_premium_histogram ::
  "narrator \<Rightarrow> (chart \<Rightarrow> bool) \<Rightarrow> dataframe \<Rightarrow> string \<Rightarrow> nat \<Rightarrow> chart option" where
  "create_premium_histogram nr renders df col index =
     (case getitem df col of
        Inl e \<Rightarrow> None
      | Inr cells \<Rightarrow>
          let data = dropna cells
          in finish renders
               \<lparr>chart_type = ''histogram'', chart_column = Some col,
                chart_histograms = [(data, 30)],
                chart_insights = generate_chart_insights nr df ''histogram''\<rparr>)"

definition create_premium_categorical_chart ::
  "narrator \<Rightarrow> (chart \<Rightarrow> bool) \<Rightarrow> dataframe \<Rightarrow> string \<Rightarrow> nat \<Rightarrow> chart option" where
  "create_premium_categorical_chart nr renders df col index =
     finish renders
       \<lparr>chart_type = ''categorical'', chart_column = Some col, chart_histograms = [],
        chart_insights = generate_chart_insights nr df ''categorical''\<rparr>"

definition create_premium_correlation_heatmap ::
  "narrator \<Rightarrow> (chart \<Rightarrow> bool) \<Rightarrow> dataframe \<Rightarrow> string list \<Rightarrow> chart option" where
  "create_premium_correlation_heatmap nr renders df cols = plain_chart nr renders df ''correlation''"

subsection \<open>Tables as objects\<close>

text \<open>
  The methods receive a reference to the caller's \<open>DataFrame\<close>. A heap is the list of the
  tables allocated so far and a reference is an index into it: \<open>df.copy()\<close> allocates a new
  table, \<open>df[name] = values\<close> writes a column into the table a reference points to.
\<close>

type_synonym heap = "dataframe list"

definition df_copy :: "heap \<Rightarrow> nat \<Rightarrow> heap \<times> nat" where
  "df_copy h r = (h @ [h ! r], length h)"

definition set_column :: "column \<Rightarrow> column list \<Rightarrow> column list" where
  "set_column c cols =
     (if col_name c \<in> set (map col_name cols)
      then map (\<lambda>d. if col_name d = col_name c then c else d) cols
      else cols @ [c])"

definition setitem :: "heap \<Rightarrow> nat \<Rightarrow> column \<Rightarrow> heap" where
  "setitem h r c = h[r := (h ! r)\<lparr>columns := set_column c (columns (h ! r))\<rparr>]"

text \<open>
  \<open>pd.cut(ages, bins=[0, 12, 18, 35, 60, 100], labels=..., right=False)\<close>; it raises on
  values that are not numbers.
\<close>

definition age_group :: "rat \<Rightarrow> cell option" where
  "age_group x =
     (if x < 0 then None
      else if x < 12 then Some (Str ''Child'')
      else if x < 18 then Some (Str ''Teen'')
      else if x < 35 then Some (Str ''Young Adult'')
      else if x < 60 then Some (Str ''Adult'')
      else if x < 100 then Some (Str ''Senior'')
      else None)"

fun cut_age :: "cell option list \<Rightarrow> exn + cell option list" where
  "cut_age [] = Inr []"
| "cut_age (None # cells) = bind (cut_age cells) (\<lambda>groups. Inr (None # groups))"
| "cut_age (Some (Num x) # cells) = bind (cut_age cells) (\<lambda>groups. Inr (age_group x # groups))"
| "cut_age (Some (Str s) # cells) = Inl (Exception ''TypeError'')"

text \<open>\<open>df['SibSp'] + df['Parch'] + 1\<close>, row by row; it raises on values that are not numbers.\<close>

fun family_size :: "cell option list \<Rightarrow> cell option list \<Rightarrow> exn + cell option list" where
  "family_size (Some (Str s) # xs) ys = Inl (Exception ''TypeError'')"
| "family_size xs (Some (Str s) # ys) = Inl (Exception ''TypeError'')"
| "family_size (Some (Num a) # xs) (Some (Num b) # ys) =
     bind (family_size xs ys) (\<lambda>sizes. Inr (Some (Num (a + b + 1)) # sizes))"
| "family_size (x # xs) (y # ys) = bind (family_size xs ys) (\<lambda>sizes. Inr (None # sizes))"
| "family_size xs ys = Inr []"

definition create_age_distribution_chart ::
  "narrator \<Rightarrow> (chart \<Rightarrow> bool) \<Rightarrow> heap \<Rightarrow> nat \<Rightarrow> heap \<times> chart option" where
  "create_age_distribution_chart nr renders h df =
     (case getitem (h ! df) ''Age'' of
        Inl e \<Rightarrow> (h, None)
      | Inr cells \<Rightarrow>
          let age_data = dropna cells;
              (h, df_temp) = df_copy h df
          in (case bind (getitem (h ! df_temp) ''Age'') cut_age of
                Inl e \<Rightarrow> (h, None)
              | Inr groups \<Rightarrow>
                  let h = setitem h df_temp
                            \<lparr>col_name = ''AgeGroup'', col_dtype = Category, col_cells = groups\<rparr>
                  in (h, finish renders
                           \<lparr>chart_type = ''age_analysis'', chart_column = None,
                            chart_histograms = [(age_data, 30)],
                            chart_insights = generate_chart_insights nr (h ! df) ''age_analysis''\<rparr>)))"

definition create_family_analysis_chart ::
  "narrator \<Rightarrow> (chart \<Rightarrow> bool) \<Rightarrow> heap \<Rightarrow> nat \<Rightarrow> heap \<times> chart option" where
  "create_family_analysis_chart nr renders h df =
     (let (h, df_temp) = df_copy h df
      in (case bind (getitem (h ! df_temp) ''SibSp'') (\<lambda>sibsp.
               bind (getitem (h ! df_temp) ''Parch'') (\<lambda>parch. family_size sibsp parch)) of
            Inl e \<Rightarrow> (h, None)
          | Inr sizes \<Rightarrow>
              let h = setitem h df_temp
                        \<lparr>col_name = ''FamilySize'', col_dtype = Float64, col_cells = sizes\<rparr>
              in (h, plain_chart nr renders (h ! df) ''family_analysis'')))"

text \<open>\<open>df[col]\<close> for a column name taken from \<open>df.columns\<close>.\<close>

definition column_cells :: "dataframe \<Rightarrow> string \<Rightarrow> cell option list" where
  "column_cells df col = (case getitem df col of Inl e \<Rightarrow> [] | Inr cells \<Rightarrow> cells)"

text \<open>\<open>df[col].nunique()\<close>: the number of distinct non-null values.\<close>

definition nunique :: "cell option list \<Rightarrow> nat" where
  "nunique cells = length (remdups (dropna cells))"

definition max_categories :: nat where
  "max_categories = 15"

definition histogram_charts ::
  "narrator \<Rightarrow> (chart \<Rightarrow> bool) \<Rightarrow> dataframe \<Rightarrow> string list \<Rightarrow> chart list" where
  "histogram_charts nr renders df numeric =
     concat (map (\<lambda>(i, col).
         if col \<notin> set [''Age'', ''Fare'', ''PassengerId'', ''Survived'', ''Pclass'']
            \<and> notna_count (column_cells df col) > 0
         then appended (create_premium_histogram nr renders df col i)
         else [])
       (enumerate 0 numeric))"

definition categorical_charts ::
  "narrator \<Rightarrow> (chart \<Rightarrow> bool) \<Rightarrow> dataframe \<Rightarrow> string list \<Rightarrow> chart list" where
  "categorical_charts nr renders df categorical =
     concat (map (\<lambda>(i, col).
         if col \<notin> set [''Sex'', ''Embarked'']
            \<and> nunique (column_cells df col) \<le> max_categories
            \<and> nunique (column_cells df col) > 1
         then appended (create_premium_categorical_chart nr renders df col i)
         else [])
       (enumerate 0 categorical))"

definition generate_premium_charts ::
  "narrator \<Rightarrow> (chart \<Rightarrow> bool) \<Rightarrow> heap \<Rightarrow> nat \<Rightarrow> heap \<times> chart list" where
  "generate_premium_charts nr renders h df =
     (let numeric = numeric_cols (h ! df);
          categorical = categorical_cols (h ! df);
          charts = appended (create_data_overview_chart nr renders (h ! df));
          charts = charts @
            (if has_column (h ! df) ''Survived'' \<and> has_column (h ! df) ''Pclass''
             then appended (create_survival_analysis_chart nr renders (h ! df)) else []);
          (h, age_chart) =
            (if has_column (h ! df) ''Age''
             then create_age_distribution_chart nr renders h df else (h, None));
          charts = charts @ appended age_chart;
          charts = charts @
            (if has_column (h ! df) ''Pclass''
             then appended (create_class_analysis_chart nr renders (h ! df)) else []);
          charts = charts @
            (if has_column (h ! df) ''Sex''
             then appended (create_gender_analysis_chart nr renders (h ! df)) else []);
          charts = charts @
            (if has_column (h ! df) ''Fare''
             then appended (create_fare_analysis_chart nr renders (h ! df)) else []);
          charts = charts @
            (if has_column (h ! df) ''Embarked''
             then appended (create_embarkation_analysis_chart nr renders (h ! df)) else []);
          (h, family_chart) =
            (if has_column (h ! df) ''SibSp'' \<and> has_column (h ! df) ''Parch''
             then create_family_analysis_chart nr renders h df else (h, None));
          charts = charts @ appended family_chart;
          charts = charts @ histogram_charts nr renders (h ! df) numeric;
          charts = charts @ categorical_charts nr renders (h ! df) categorical;
          charts = charts @
            (if length numeric \<ge> 3
             then appended (create_premium_correlation_heatmap nr renders (h ! df) numeric) else [])
      in (h, charts))"

subsection \<open>\<open>analyze_dataframe\<close>\<close>

record analysis =
  an_summary :: summary
  an_charts :: "chart list"
  an_dataframe_info :: dataframe_info

definition analyze_dataframe ::
  "narrator \<Rightarrow> (chart \<Rightarrow> bool) \<Rightarrow> heap \<Rightarrow> nat \<Rightarrow> heap \<times> (exn + analysis)" where
  "analyze_dataframe nr renders h df =
     (case generate_summary (h ! df) of
        Inl e \<Rightarrow> (h, Inl e)
      | Inr summary \<Rightarrow>
          let (h, charts) = generate_premium_charts nr renders h df
          in (case get_dataframe_info (h ! df) of
                Inl e \<Rightarrow> (h, Inl e)
              | Inr dataframe_info \<Rightarrow>
                  (h, Inr \<lparr>an_summary = summary, an_charts = charts,
                           an_dataframe_info = dataframe_info\<rparr>)))"

section \<open>Example inputs\<close>

definition failing_services :: services where
  "failing_services =
     \<lparr>generate_content = (\<lambda>prompt. Inl (Exception ''429 quota exceeded'')),
      py_str = (\<lambda>v. []), sort_index = Inr\<rparr>"

definition empty_df :: dataframe where
  "empty_df = \<lparr>nrows = 0, columns = []\<rparr>"


definition age_fare :: dataframe where
  "age_fare =
     \<lparr>nrows = 3,
      columns = [\<lparr>col_name = ''Age'', col_dtype = Float64,
                  col_cells = [Some (Num 22), None, Some (Num (71 / 2))]\<rparr>,
                 \<lparr>col_name = ''Fare'', col_dtype = Float64,
                  col_cells = [Some (Num (29 / 4)), Some (Num 8), None]\<rparr>]\<rparr>"

definition lowercase_titanic :: dataframe where
  "lowercase_titanic =
     \<lparr>nrows = 2,
      columns = [\<lparr>col_name = ''survived'', col_dtype = Int64, col_cells = [Some (Num 0), Some (Num 1)]\<rparr>,
                 \<lparr>col_name = ''age'', col_dtype = Float64, col_cells = [Some (Num 22), None]\<rparr>,
                 \<lparr>col_name = ''pclass'', col_dtype = Int64, col_cells = [Some (Num 3), Some (Num 1)]\<rparr>,
                 \<lparr>col_name = ''sex'', col_dtype = Object, col_cells = [Some (Str ''male''), Some (Str ''female'')]\<rparr>]\<rparr>"

definition header_only :: dataframe where
  "header_only =
     \<lparr>nrows = 0,
      columns = [\<lparr>col_name = ''Name'', col_dtype = Object, col_cells = []\<rparr>,
                 \<lparr>col_name = ''Age'', col_dtype = Object, col_cells = []\<rparr>]\<rparr>"


text \<open>
  A narrator whose number lines are empty, a table where every passenger survived, and a
  four-row sample of the passenger table with one missing age.
\<close>

definition plain_narrator :: narrator where
  "plain_narrator =
     \<lparr>fmt_thousands = str_nat,
      survival_numbers = (\<lambda>df. Inr ([], [])),
      age_numbers = (\<lambda>df. Inr ([], [], [])),
      gender_numbers = (\<lambda>df. Inr ([], []))\<rparr>"


definition titanic_sample :: dataframe where
  "titanic_sample =
     \<lparr>nrows = 4,
      columns = [\<lparr>col_name = ''Survived'', col_dtype = Int64,
                  col_cells = [Some (Num 0), Some (Num 1), Some (Num 1), Some (Num 0)]\<rparr>,
                 \<lparr>col_name = ''Pclass'', col_dtype = Int64,
                  col_cells = [Some (Num 3), Some (Num 1), Some (Num 2), Some (Num 3)]\<rparr>,
                 \<lparr>col_name = ''Sex'', col_dtype = Object,
                  col_cells = [Some (Str ''male''), Some (Str ''female''),
                               Some (Str ''female''), Some (Str ''male'')]\<rparr>,
                 \<lparr>col_name = ''Age'', col_dtype = Float64,
                  col_cells = [Some (Num 22), Some (Num 38), None, Some (Num 35)]\<rparr>,
                 \<lparr>col_name = ''SibSp'', col_dtype = Int64,
                  col_cells = [Some (Num 1), Some (Num 1), Some (Num 0), Some (Num 0)]\<rparr>,
                 \<lparr>col_name = ''Parch'', col_dtype = Int64,
                  col_cells = [Some (Num 0), Some (Num 0), Some (Num 0), Some (Num 0)]\<rparr>]\<rparr>"

text \<open>A table with a measured column and a \<open>Fare\<close> column that holds no value.\<close>

definition null_fare :: dataframe where
  "null_fare =
     \<lparr>nrows = 2,
      columns = [\<lparr>col_name = ''Height'', col_dtype = Float64,
                  col_cells = [Some (Num 170), None]\<rparr>,
                 \<lparr>col_name = ''Fare'', col_dtype = Float64,
                  col_cells = [None, None]\<rparr>]\<rparr>"

section \<open>Theorems\<close>

text \<open>
  C1. Intent classification depends on the lower-cased query only. A query whose lower-cased
  form contains some chart keyword is classified \<open>chart\<close>, also when a text keyword occurs
  in it; a query whose lower-cased form contains no chart keyword is classified \<open>text\<close>,
  with or without a text keyword.
\<close>

theorem determine_user_intent_precedence:
  "((\<exists>k \<in> set chart_keywords. str_in k (lower q)) \<longrightarrow> determine_user_intent q = ''chart'')
   \<and> ((\<forall>k \<in> set chart_keywords. \<not> str_in k (lower q)) \<longrightarrow> determine_user_intent q = ''text'')
   \<and> (\<forall>q'. lower q' = lower q \<longrightarrow> determine_user_intent q' = determine_user_intent q)"
  by (auto simp add: determine_user_intent_def any_keyword_in_def list_ex_iff)

theorem determine_user_intent_precedence_witness:
  "(\<exists>k \<in> set chart_keywords. str_in k (lower ''Plot how many survived''))
   \<and> (\<exists>k \<in> set text_keywords. str_in k (lower ''Plot how many survived''))
   \<and> determine_user_intent ''Plot how many survived'' = ''chart''
   \<and> \<not> (\<exists>k \<in> set chart_keywords. str_in k (lower ''How many survived?''))
   \<and> determine_user_intent ''How many survived?'' = ''text''
   \<and> \<not> (\<exists>k \<in> set chart_keywords. str_in k (lower ''hello there''))
   \<and> determine_user_intent ''hello there'' = ''text''
   \<and> lower ''PLOT HOW MANY SURVIVED'' = lower ''Plot how many survived''
   \<and> determine_user_intent ''PLOT HOW MANY SURVIVED'' = determine_user_intent ''Plot how many survived''"
proof -
  have c1: "\<exists>k \<in> set chart_keywords. str_in k (lower ''Plot how many survived'')"
    by code_simp
  have t1: "\<exists>k \<in> set text_keywords. str_in k (lower ''Plot how many survived'')"
    by code_simp
  have c2: "\<forall>k \<in> set chart_keywords. \<not> str_in k (lower ''How many survived?'')"
    by code_simp
  have c3: "\<forall>k \<in> set chart_keywords. \<not> str_in k (lower ''hello there'')"
    by code_simp
  have l: "lower ''PLOT HOW MANY SURVIVED'' = lower ''Plot how many survived''"
    by code_simp
  from determine_user_intent_precedence [of "''Plot how many survived''"] c1 l
  have r1: "determine_user_intent ''Plot how many survived'' = ''chart''"
    and r4: "determine_user_intent ''PLOT HOW MANY SURVIVED'' = determine_user_intent ''Plot how many survived''"
    by blast+
  from determine_user_intent_precedence [of "''How many survived?''"] c2
  have r2: "determine_user_intent ''How many survived?'' = ''text''" by blast
  from determine_user_intent_precedence [of "''hello there''"] c3
  have r3: "determine_user_intent ''hello there'' = ''text''" by blast
  from c1 t1 c2 c3 l r1 r2 r3 r4 show ?thesis by blast
qed

subsection \<open>Query router\<close>




lemma has_column_iff: "has_column df name \<longleftrightarrow> name \<in> set (column_names df)"
  by (simp add: has_column_def)

lemma find_column_Some:
  "find (\<lambda>c. col_name c = name) (columns df) = Some c \<Longrightarrow> has_column df name"
  by (auto simp add: has_column_iff column_names_def find_Some_iff)

lemma getitem_Some:
  "find (\<lambda>c. col_name c = name) (columns df) = Some c \<Longrightarrow> getitem df name = Inr (col_cells c)"
  by (simp add: getitem_def)

lemma try_except_Inr [simp]: "try_except (Inr x) handler = Inr x"
  by (simp add: try_except_def)

lemma try_except_Inl [simp]: "try_except (Inl e) handler = handler e"
  by (simp add: try_except_def)

lemma bind_Inr [simp]: "bind (Inr x) f = f x"
  by (simp add: bind_def)

lemma bind_Inl [simp]: "bind (Inl e) f = Inl e"
  by (simp add: bind_def)

lemma try_except_returns:
  assumes "\<And>e. \<exists>r. handler e = Inr r"
  shows "\<exists>r. try_except body handler = Inr r"
  using assms by (cases body) auto



lemma create_survival_chart_direct_absent:
  "''Survived'' \<notin> set (column_names df) \<Longrightarrow>
   create_survival_chart_direct df = Inr (ErrorResponse ''Survival data not found in this dataset'')"
  by (simp add: create_survival_chart_direct_def has_column_iff)

lemma create_age_chart_direct_present:
  assumes "find (\<lambda>c. col_name c = ''Age'') (columns df) = Some c"
  shows "create_age_chart_direct df =
     Inr (ChartResponse
       \<lparr>chart_trace = Histogram (dropna (col_cells c)) 30,
        layout_title = ''Age Distribution'',
        xaxis_title = Some ''Age (years)'', yaxis_title = Some ''Count''\<rparr>)"
  using find_column_Some[OF assms] getitem_Some[OF assms]
  by (simp add: create_age_chart_direct_def)

lemma create_age_chart_direct_absent:
  "''Age'' \<notin> set (column_names df) \<Longrightarrow>
   create_age_chart_direct df = Inr (ErrorResponse ''Age data not found in this dataset'')"
  by (simp add: create_age_chart_direct_def has_column_iff)

lemma create_class_chart_direct_absent:
  "''Pclass'' \<notin> set (column_names df) \<Longrightarrow>
   create_class_chart_direct sv df = Inr (ErrorResponse ''Passenger class data not found in this dataset'')"
  by (simp add: create_class_chart_direct_def has_column_iff)

lemma create_gender_chart_direct_absent:
  "''Sex'' \<notin> set (column_names df) \<Longrightarrow>
   create_gender_chart_direct df = Inr (ErrorResponse ''Gender data not found in this dataset'')"
  by (simp add: create_gender_chart_direct_def has_column_iff)


text \<open>
  C3. The router's entry point \<open>generate_chart\<close> always returns, and what it returns is a text
  answer, a chart payload or an error payload: whatever the table, the query, the history and
  the behaviour of the services (including a completion call, or a pandas call, that raises),
  no exception leaves it. When the text path's completion call raises, the result is the
  error payload carrying that exception's message.
\<close>

theorem generate_chart_total:
  "((\<exists>text. generate_chart sv df q h = Inr (TextResponse text))
    \<or> (\<exists>chart. generate_chart sv df q h = Inr (ChartResponse chart))
    \<or> (\<exists>message. generate_chart sv df q h = Inr (ErrorResponse message)))
   \<and> (\<forall>e. determine_user_intent q \<noteq> ''chart'' \<and> (\<forall>prompt. generate_content sv prompt = Inl e) \<longrightarrow>
         generate_chart sv df q h
           = Inr (ErrorResponse (''Failed to generate text response: '' @ str_exn e)))"
proof
  have "\<exists>r. generate_chart sv df q h = Inr r"
    unfolding generate_chart_def by (rule try_except_returns) simp
  then obtain r where r: "generate_chart sv df q h = Inr r" ..
  show "(\<exists>text. generate_chart sv df q h = Inr (TextResponse text))
    \<or> (\<exists>chart. generate_chart sv df q h = Inr (ChartResponse chart))
    \<or> (\<exists>message. generate_chart sv df q h = Inr (ErrorResponse message))"
    unfolding r by (cases r) simp_all
next
  show "\<forall>e. determine_user_intent q \<noteq> ''chart'' \<and> (\<forall>prompt. generate_content sv prompt = Inl e) \<longrightarrow>
         generate_chart sv df q h
           = Inr (ErrorResponse (''Failed to generate text response: '' @ str_exn e))"
    by (simp add: generate_chart_def generate_text_response_def Let_def)
qed

theorem generate_chart_total_witness:
  "determine_user_intent ''How many rows?'' \<noteq> ''chart''
   \<and> (\<forall>prompt. generate_content failing_services prompt = Inl (Exception ''429 quota exceeded''))
   \<and> generate_chart failing_services empty_df ''How many rows?'' []
       = Inr (ErrorResponse ''Failed to generate text response: 429 quota exceeded'')"
proof -
  have i: "determine_user_intent ''How many rows?'' \<noteq> ''chart''" by code_simp
  have g: "\<forall>prompt. generate_content failing_services prompt = Inl (Exception ''429 quota exceeded'')"
    by (simp add: failing_services_def)
  from generate_chart_total [of failing_services empty_df "''How many rows?''" "[]"] i g
  show ?thesis by simp
qed




text \<open>
  C5. On any table with an \<open>Age\<close> column, the query \<open>Show me a histogram of Age\<close> takes the
  direct age template, not the generic fallback, and the histogram's x-data are exactly the
  non-null cells of that column.
\<close>

theorem age_histogram_query:
  assumes "find (\<lambda>c. col_name c = ''Age'') (columns df) = Some c"
  shows "generate_chart sv df ''Show me a histogram of Age'' h =
           Inr (ChartResponse
             \<lparr>chart_trace = Histogram (dropna (col_cells c)) 30,
              layout_title = ''Age Distribution'',
              xaxis_title = Some ''Age (years)'', yaxis_title = Some ''Count''\<rparr>)
         \<and> generate_chart_response sv df ''Show me a histogram of Age'' h = create_age_chart_direct df"
proof -
  have l: "lower ''Show me a histogram of Age'' = ''show me a histogram of age''" by code_simp
  have i: "determine_user_intent ''Show me a histogram of Age'' = ''chart''" by code_simp
  have s: "\<not> str_in ''survival'' ''show me a histogram of age''" by code_simp
  have a: "str_in ''age'' ''show me a histogram of age''" by code_simp
  have g: "str_in ''histogram'' ''show me a histogram of age''" by code_simp
  have "generate_chart_response sv df ''Show me a histogram of Age'' h = create_age_chart_direct df"
    unfolding generate_chart_response_def Let_def l
    by (simp only: s a g simp_thms if_True if_False create_age_chart_direct_present [OF assms] try_except_Inr)
  then show ?thesis
    by (simp add: generate_chart_def i create_age_chart_direct_present [OF assms])
qed

theorem age_histogram_query_witness:
  "find (\<lambda>c. col_name c = ''Age'') (columns age_fare)
     = Some \<lparr>col_name = ''Age'', col_dtype = Float64,
             col_cells = [Some (Num 22), None, Some (Num (71 / 2))]\<rparr>
   \<and> generate_chart failing_services age_fare ''Show me a histogram of Age'' [] =
        Inr (ChartResponse
          \<lparr>chart_trace = Histogram [Num 22, Num (71 / 2)] 30,
           layout_title = ''Age Distribution'',
           xaxis_title = Some ''Age (years)'', yaxis_title = Some ''Count''\<rparr>)"
proof -
  have f: "find (\<lambda>c. col_name c = ''Age'') (columns age_fare)
     = Some \<lparr>col_name = ''Age'', col_dtype = Float64,
             col_cells = [Some (Num 22), None, Some (Num (71 / 2))]\<rparr>"
    by (simp add: age_fare_def)
  from age_histogram_query [OF f, of failing_services "[]"] f show ?thesis
    by (simp add: dropna_def)
qed

text \<open>
  C10. The direct templates test column presence by the exact names \<open>Survived\<close>, \<open>Age\<close>,
  \<open>Pclass\<close> and \<open>Sex\<close>. On a table without the exact name, also one that has a
  case-variant of it, a query that reaches the template (the matchers see the lower-cased
  query, so in any case) gets the template's data-not-found error payload instead of a chart.
\<close>

theorem direct_templates_exact_names:
  "(''Survived'' \<notin> set (column_names df)
      \<and> str_in ''survival'' (lower q1) \<and> (str_in ''chart'' (lower q1) \<or> str_in ''plot'' (lower q1))
    \<longrightarrow> generate_chart_response sv df q1 h
          = Inr (ErrorResponse ''Survival data not found in this dataset''))
   \<and> (''Age'' \<notin> set (column_names df)
      \<and> \<not> str_in ''survival'' (lower q2)
      \<and> str_in ''age'' (lower q2)
      \<and> (str_in ''distribution'' (lower q2) \<or> str_in ''chart'' (lower q2) \<or> str_in ''histogram'' (lower q2))
    \<longrightarrow> generate_chart_response sv df q2 h
          = Inr (ErrorResponse ''Age data not found in this dataset''))
   \<and> (''Pclass'' \<notin> set (column_names df)
      \<and> \<not> str_in ''survival'' (lower q3) \<and> \<not> str_in ''age'' (lower q3)
      \<and> (str_in ''class'' (lower q3) \<or> str_in ''pclass'' (lower q3))
      \<and> (str_in ''chart'' (lower q3) \<or> str_in ''bar'' (lower q3))
    \<longrightarrow> generate_chart_response sv df q3 h
          = Inr (ErrorResponse ''Passenger class data not found in this dataset''))
   \<and> (''Sex'' \<notin> set (column_names df)
      \<and> \<not> str_in ''survival'' (lower q4) \<and> \<not> str_in ''age'' (lower q4)
      \<and> \<not> str_in ''class'' (lower q4) \<and> \<not> str_in ''pclass'' (lower q4)
      \<and> (str_in ''gender'' (lower q4) \<or> str_in ''sex'' (lower q4))
    \<longrightarrow> generate_chart_response sv df q4 h
          = Inr (ErrorResponse ''Gender data not found in this dataset''))"
  by (simp add: generate_chart_response_def Let_def
        create_survival_chart_direct_absent create_age_chart_direct_absent
        create_class_chart_direct_absent create_gender_chart_direct_absent)

theorem direct_templates_exact_names_witness:
  "''Survived'' \<notin> set (column_names lowercase_titanic)
   \<and> ''survived'' \<in> set (column_names lowercase_titanic)
   \<and> generate_chart_response failing_services lowercase_titanic ''SURVIVAL Plot'' []
        = Inr (ErrorResponse ''Survival data not found in this dataset'')
   \<and> ''Age'' \<notin> set (column_names lowercase_titanic)
   \<and> ''age'' \<in> set (column_names lowercase_titanic)
   \<and> generate_chart_response failing_services lowercase_titanic ''AGE Distribution'' []
        = Inr (ErrorResponse ''Age data not found in this dataset'')
   \<and> ''Pclass'' \<notin> set (column_names lowercase_titanic)
   \<and> ''pclass'' \<in> set (column_names lowercase_titanic)
   \<and> generate_chart_response failing_services lowercase_titanic ''Bar of PCLASS'' []
        = Inr (ErrorResponse ''Passenger class data not found in this dataset'')
   \<and> ''Sex'' \<notin> set (column_names lowercase_titanic)
   \<and> ''sex'' \<in> set (column_names lowercase_titanic)
   \<and> generate_chart_response failing_services lowercase_titanic ''Gender split'' []
        = Inr (ErrorResponse ''Gender data not found in this dataset'')"
proof -
  have n: "column_names lowercase_titanic = [''survived'', ''age'', ''pclass'', ''sex'']"
    by (simp add: lowercase_titanic_def column_names_def)
  have q1: "str_in ''survival'' (lower ''SURVIVAL Plot'') \<and> str_in ''plot'' (lower ''SURVIVAL Plot'')"
    by code_simp
  have q2: "\<not> str_in ''survival'' (lower ''AGE Distribution'') \<and> str_in ''age'' (lower ''AGE Distribution'')
            \<and> str_in ''distribution'' (lower ''AGE Distribution'')"
    by code_simp
  have q3: "\<not> str_in ''survival'' (lower ''Bar of PCLASS'') \<and> \<not> str_in ''age'' (lower ''Bar of PCLASS'')
            \<and> str_in ''pclass'' (lower ''Bar of PCLASS'') \<and> str_in ''bar'' (lower ''Bar of PCLASS'')"
    by code_simp
  have q4: "\<not> str_in ''survival'' (lower ''Gender split'') \<and> \<not> str_in ''age'' (lower ''Gender split'')
            \<and> \<not> str_in ''class'' (lower ''Gender split'') \<and> \<not> str_in ''pclass'' (lower ''Gender split'')
            \<and> str_in ''gender'' (lower ''Gender split'')"
    by code_simp
  from direct_templates_exact_names
         [of lowercase_titanic "''SURVIVAL Plot''" failing_services "[]" "''AGE Distribution''" "''Bar of PCLASS''" "''Gender split''"]
       q1 q2 q3 q4
  show ?thesis by (simp add: n)
qed

subsection \<open>Health score\<close>

text \<open>
  On a table with at least one cell the computed score is the one the specification words,
  it lies in \<open>[0, 100]\<close>, and a table without missing cells or duplicate rows that has a
  numeric and a categorical column scores 100.
\<close>

lemma py_int_clamp: "py_int (max 0 (min 100 x)) = max 0 (min 100 (py_int x))"
proof -
  consider "x < 0" | "0 \<le> x" "x \<le> 100" | "100 < x" by linarith
  then show ?thesis
  proof cases
    case 1
    then have "\<lceil>x\<rceil> \<le> 0" by (simp add: ceiling_le_iff)
    with 1 have r: "max 0 (min 100 (py_int x)) = 0" unfolding py_int_def by auto
    from 1 have "max 0 (min 100 x) = 0" by auto
    then have "py_int (max 0 (min 100 x)) = 0" by (simp add: py_int_def)
    with r show ?thesis by simp
  next
    case 2
    then have "0 \<le> \<lfloor>x\<rfloor>" and "\<lfloor>x\<rfloor> \<le> 100" by (auto simp add: le_floor_iff floor_le_iff)
    with 2 have r: "max 0 (min 100 (py_int x)) = \<lfloor>x\<rfloor>" unfolding py_int_def by auto
    from 2 have "max 0 (min 100 x) = x" by auto
    then have "py_int (max 0 (min 100 x)) = \<lfloor>x\<rfloor>" using 2 by (simp add: py_int_def)
    with r show ?thesis by simp
  next
    case 3
    then have "100 \<le> \<lfloor>x\<rfloor>" by (simp add: le_floor_iff)
    with 3 have r: "max 0 (min 100 (py_int x)) = 100" unfolding py_int_def by auto
    from 3 have "max 0 (min 100 x) = 100" by auto
    then have "py_int (max 0 (min 100 x)) = 100" by (simp add: py_int_def)
    with r show ?thesis by simp
  qed
qed

lemma high_missing_cols_eq:
  assumes "0 < nrows df"
  shows "high_missing_cols df
         = length (filter (\<lambda>c. 2 * isnull_count (col_cells c) > nrows df) (columns df))"
proof -
  have "((of_nat k :: rat) / of_nat (nrows df) > 1 / 2) \<longleftrightarrow> 2 * k > nrows df" for k
  proof -
    have "((of_nat k :: rat) / of_nat (nrows df) > 1 / 2) \<longleftrightarrow> (of_nat (nrows df) :: rat) < 2 * of_nat k"
      using assms by (simp add: field_simps)
    also have "\<dots> \<longleftrightarrow> (of_nat (nrows df) :: rat) < of_nat (2 * k)" by simp
    also have "\<dots> \<longleftrightarrow> nrows df < 2 * k" by (simp only: of_nat_less_iff)
    finally show ?thesis .
  qed
  then show ?thesis by (simp add: high_missing_cols_def)
qed

lemma has_numeric_iff: "has_numeric df \<longleftrightarrow> (\<exists>c \<in> set (columns df). is_number (col_dtype c))"
  by (auto simp add: has_numeric_def numeric_cols_def filter_empty_conv)

lemma has_categorical_iff: "has_categorical df \<longleftrightarrow> (\<exists>c \<in> set (columns df). col_dtype c = Object)"
  by (auto simp add: has_categorical_def categorical_cols_def filter_empty_conv)

lemma calculate_health_score_spec:
  assumes "0 < total_cells df"
  shows "calculate_health_score df = Inr (spec_health_score df)"
proof -
  from assms have r: "0 < nrows df" by (simp add: total_cells_def)
  have "raw_score df =
       100 - (of_nat (missing_cells df) / of_nat (total_cells df)) * 100
            - ((of_nat (duplicate_count df) / of_nat (nrows df)) * 100) / 2
            - 5 * of_nat (length (filter (\<lambda>c. 2 * isnull_count (col_cells c) > nrows df) (columns df)))
            + (if (\<exists>c \<in> set (columns df). is_number (col_dtype c))
                  \<and> (\<exists>c \<in> set (columns df). col_dtype c = Object) then 5 else 0)"
    by (simp add: raw_score_def Let_def high_missing_cols_eq [OF r] has_numeric_iff has_categorical_iff)
  then show ?thesis
    using assms by (simp add: calculate_health_score_def spec_health_score_def py_int_clamp)
qed

lemma calculate_health_score_range:
  assumes "0 < total_cells df"
  shows "\<exists>s. calculate_health_score df = Inr s \<and> 0 \<le> s \<and> s \<le> 100"
  using assms by (simp add: calculate_health_score_def)

lemma calculate_health_score_clean:
  assumes "0 < total_cells df" and "missing_cells df = 0" and "duplicate_count df = 0"
    and "has_numeric df" and "has_categorical df"
  shows "calculate_health_score df = Inr 100"
proof -
  have "\<forall>c \<in> set (columns df). isnull_count (col_cells c) = 0"
    using assms(2) by (auto simp add: missing_cells_def sum_list_eq_0_iff)
  then have "filter (\<lambda>c. (of_nat (isnull_count (col_cells c)) :: rat) / of_nat (nrows df) > 1 / 2)
                    (columns df) = []"
    by (simp add: filter_empty_conv)
  then have "raw_score df = 105"
    using assms by (simp add: raw_score_def high_missing_cols_def Let_def)
  then show ?thesis using assms(1) by (simp add: calculate_health_score_def py_int_def)
qed

text \<open>
  C2. The health score is an integer in \<open>[0, 100]\<close> for every table. The code does not
  deliver that on a table without cells: for a header-only upload (columns, no rows) both
  percentages are \<open>0 / 0\<close>, the score is \<open>NaN\<close> and \<open>int(score)\<close> raises, so neither the
  summary nor the table metadata is produced.
\<close>

theorem calculate_health_score_header_only:
  "wf_dataframe header_only
   \<and> calculate_health_score header_only = Inl (Exception ''cannot convert float NaN to integer'')
   \<and> get_dataframe_info header_only = Inl (Exception ''cannot convert float NaN to integer'')
   \<and> generate_summary header_only = Inl (Exception ''cannot convert float NaN to integer'')"
  by (simp add: header_only_def wf_dataframe_def calculate_health_score_def total_cells_def
        get_dataframe_info_def generate_summary_def bind_def)

subsection \<open>Completeness\<close>









lemma set_null_simps [simp]:
  "nrows (set_null df j i) = nrows df"
  "length (columns (set_null df j i)) = length (columns df)"
  "total_cells (set_null df j i) = total_cells df"
  by (simp_all add: set_null_def total_cells_def)





lemma notna_count_replicate_Some [simp]: "notna_count (replicate n (Some v)) = n"
  by (induction n) (simp_all add: notna_count_def)

lemma isnull_count_replicate_Some [simp]: "isnull_count (replicate n (Some v)) = 0"
  by (induction n) (simp_all add: isnull_count_def)

lemma notna_count_Cons [simp]:
  "notna_count (x # xs) = (if x = None then notna_count xs else Suc (notna_count xs))"
  by (simp add: notna_count_def)

lemma isnull_count_Cons [simp]:
  "isnull_count (x # xs) = (if x = None then Suc (isnull_count xs) else isnull_count xs)"
  by (simp add: isnull_count_def)

lemma notna_count_Nil [simp]: "notna_count [] = 0"
  by (simp add: notna_count_def)

lemma isnull_count_Nil [simp]: "isnull_count [] = 0"
  by (simp add: isnull_count_def)

lemma notna_count_append [simp]: "notna_count (xs @ ys) = notna_count xs + notna_count ys"
  by (simp add: notna_count_def)

lemma isnull_count_append [simp]: "isnull_count (xs @ ys) = isnull_count xs + isnull_count ys"
  by (simp add: isnull_count_def)





subsection \<open>Statistical-significance field of the insight bundles\<close>

lemma bind_Inr_iff: "bind m f = Inr y \<longleftrightarrow> (\<exists>x. m = Inr x \<and> f x = Inr y)"
  by (cases m) (simp_all add: bind_def)










subsection \<open>The tables of the caller are left as they were\<close>

text \<open>
  The two methods that add a derived column write it into the table \<open>df.copy()\<close> has just
  allocated, so each of them only extends the heap.
\<close>

lemma setitem_fresh:
  "setitem (h @ [x]) (length h) c = h @ [x\<lparr>columns := set_column c (columns x)\<rparr>]"
  by (simp add: setitem_def)

lemma create_age_distribution_chart_heap:
  "\<exists>new. fst (create_age_distribution_chart nr renders h df) = h @ new"
  by (auto simp add: create_age_distribution_chart_def df_copy_def Let_def setitem_fresh
      split: sum.splits)

lemma create_family_analysis_chart_heap:
  "\<exists>new. fst (create_family_analysis_chart nr renders h df) = h @ new"
  by (auto simp add: create_family_analysis_chart_def df_copy_def Let_def setitem_fresh
      split: sum.splits)

lemma age_step:
  obtains h1 a new where
    "(if has_column (h ! df) ''Age''
      then create_age_distribution_chart nr renders h df else (h, None)) = (h1, a)"
    "h1 = h @ new"
proof (cases "has_column (h ! df) ''Age''")
  case True
  obtain h1 a where e: "create_age_distribution_chart nr renders h df = (h1, a)"
    by (cases "create_age_distribution_chart nr renders h df")
  with create_age_distribution_chart_heap [of nr renders h df]
  obtain new where "h1 = h @ new" by auto
  with True e that show ?thesis by simp
next
  case False
  with that [of h None "[]"] show ?thesis by simp
qed

lemma family_step:
  obtains h2 f new where
    "(if has_column (h ! df) ''SibSp'' \<and> has_column (h ! df) ''Parch''
      then create_family_analysis_chart nr renders h df else (h, None)) = (h2, f)"
    "h2 = h @ new"
proof (cases "has_column (h ! df) ''SibSp'' \<and> has_column (h ! df) ''Parch''")
  case True
  obtain h2 f where e: "create_family_analysis_chart nr renders h df = (h2, f)"
    by (cases "create_family_analysis_chart nr renders h df")
  with create_family_analysis_chart_heap [of nr renders h df]
  obtain new where "h2 = h @ new" by auto
  with True e that show ?thesis by simp
next
  case False
  with that [of h None "[]"] show ?thesis by simp
qed

lemma generate_premium_charts_heap:
  "\<exists>new. fst (generate_premium_charts nr renders h df) = h @ new"
proof -
  obtain h1 a n1 where A:
    "(if has_column (h ! df) ''Age''
      then create_age_distribution_chart nr renders h df else (h, None)) = (h1, a)"
    and h1: "h1 = h @ n1"
    by (rule age_step)
  obtain h2 f n2 where F:
    "(if has_column (h1 ! df) ''SibSp'' \<and> has_column (h1 ! df) ''Parch''
      then create_family_analysis_chart nr renders h1 df else (h1, None)) = (h2, f)"
    and h2: "h2 = h1 @ n2"
    by (rule family_step)
  have "fst (generate_premium_charts nr renders h df) = h2"
    unfolding generate_premium_charts_def Let_def A prod.case F fst_conv ..
  with h1 h2 show ?thesis by simp
qed

lemma analyze_dataframe_heap:
  "\<exists>new. fst (analyze_dataframe nr renders h df) = h @ new"
proof (cases "generate_summary (h ! df)")
  case (Inl e)
  then show ?thesis by (simp add: analyze_dataframe_def)
next
  case (Inr s)
  obtain h' charts where g: "generate_premium_charts nr renders h df = (h', charts)"
    by (cases "generate_premium_charts nr renders h df")
  with generate_premium_charts_heap [of nr renders h df]
  obtain new where "h' = h @ new" by auto
  with Inr g show ?thesis
    by (cases "get_dataframe_info (h' ! df)") (simp_all add: analyze_dataframe_def)
qed

text \<open>
  Claim C9. Running the full analysis (summary, chart catalogue, metadata) on the table
  behind a reference leaves every table that existed before the call as it was, the
  analysed one included: same columns, same row count, same cells. The analysis only
  allocates tables.
\<close>

theorem analyze_dataframe_frame:
  assumes "r < length h"
  shows "fst (analyze_dataframe nr renders h df) ! r = h ! r
         \<and> length h \<le> length (fst (analyze_dataframe nr renders h df))"
proof -
  obtain new where "fst (analyze_dataframe nr renders h df) = h @ new"
    using analyze_dataframe_heap by blast
  with assms show ?thesis by (simp add: nth_append)
qed

theorem analyze_dataframe_frame_witness:
  "(0::nat) < length [titanic_sample]
   \<and> fst (analyze_dataframe plain_narrator (\<lambda>c. True) [titanic_sample] 0) ! 0 = titanic_sample
   \<and> length [titanic_sample]
       \<le> length (fst (analyze_dataframe plain_narrator (\<lambda>c. True) [titanic_sample] 0))"
  using analyze_dataframe_frame [of 0 "[titanic_sample]" plain_narrator "\<lambda>c. True" 0]
  by simp

text \<open>
  On the sample the analysis allocates two tables; \<open>AgeGroup\<close> and \<open>FamilySize\<close> are columns of
  these copies only.
\<close>

lemma analyze_dataframe_copies:
  "map column_names (fst (analyze_dataframe plain_narrator (\<lambda>c. True) [titanic_sample] 0))
   = [[''Survived'', ''Pclass'', ''Sex'', ''Age'', ''SibSp'', ''Parch''],
      [''Survived'', ''Pclass'', ''Sex'', ''Age'', ''SibSp'', ''Parch'', ''AgeGroup''],
      [''Survived'', ''Pclass'', ''Sex'', ''Age'', ''SibSp'', ''Parch'', ''FamilySize'']]"
  by code_simp

subsection \<open>Histograms of the chart catalogue\<close>

text \<open>
  Only the loop over the remaining numeric columns emits entries of type \<open>histogram\<close>; every
  other entry of the catalogue has a type of its own.
\<close>

lemma set_if_Nil: "c \<in> set (if b then xs else []) \<longleftrightarrow> b \<and> c \<in> set xs"
  by simp

lemma plain_chart_type:
  "c \<in> set (appended (plain_chart nr renders df t)) \<Longrightarrow> chart_type c = t"
  by (auto simp add: appended_def plain_chart_def finish_def split: if_splits)

lemma overview_not_histogram:
  "c \<in> set (appended (create_data_overview_chart nr renders df)) \<Longrightarrow> chart_type c \<noteq> ''histogram''"
  by (cases "calculate_health_score df")
     (auto simp add: create_data_overview_chart_def appended_def plain_chart_def finish_def
       split: if_splits)

lemma survival_not_histogram:
  "c \<in> set (appended (create_survival_analysis_chart nr renders df)) \<Longrightarrow> chart_type c \<noteq> ''histogram''"
  by (auto simp add: create_survival_analysis_chart_def dest: plain_chart_type)

lemma class_not_histogram:
  "c \<in> set (appended (create_class_analysis_chart nr renders df)) \<Longrightarrow> chart_type c \<noteq> ''histogram''"
  by (auto simp add: create_class_analysis_chart_def dest: plain_chart_type)

lemma gender_not_histogram:
  "c \<in> set (appended (create_gender_analysis_chart nr renders df)) \<Longrightarrow> chart_type c \<noteq> ''histogram''"
  by (auto simp add: create_gender_analysis_chart_def dest: plain_chart_type)

lemma embarkation_not_histogram:
  "c \<in> set (appended (create_embarkation_analysis_chart nr renders df)) \<Longrightarrow> chart_type c \<noteq> ''histogram''"
  by (auto simp add: create_embarkation_analysis_chart_def dest: plain_chart_type)

lemma heatmap_not_histogram:
  "c \<in> set (appended (create_premium_correlation_heatmap nr renders df cols)) \<Longrightarrow> chart_type c \<noteq> ''histogram''"
  by (auto simp add: create_premium_correlation_heatmap_def dest: plain_chart_type)

lemma fare_not_histogram:
  "c \<in> set (appended (create_fare_analysis_chart nr renders df)) \<Longrightarrow> chart_type c \<noteq> ''histogram''"
  by (cases "getitem df ''Fare''")
     (auto simp add: create_fare_analysis_chart_def appended_def finish_def Let_def split: if_splits)

lemma age_not_histogram:
  "c \<in> set (appended (snd (create_age_distribution_chart nr renders h df))) \<Longrightarrow> chart_type c \<noteq> ''histogram''"
  by (auto simp add: create_age_distribution_chart_def df_copy_def appended_def finish_def Let_def
      split: sum.splits if_splits)

lemma family_not_histogram:
  "c \<in> set (appended (snd (create_family_analysis_chart nr renders h df))) \<Longrightarrow> chart_type c \<noteq> ''histogram''"
  by (auto simp add: create_family_analysis_chart_def df_copy_def appended_def Let_def
      plain_chart_def finish_def split: sum.splits if_splits)

lemma categorical_not_histogram:
  "c \<in> set (categorical_charts nr renders df cols) \<Longrightarrow> chart_type c \<noteq> ''histogram''"
  by (auto simp add: categorical_charts_def create_premium_categorical_chart_def appended_def
      finish_def split: if_splits)

lemma histogram_charts_entry:
  assumes "c \<in> set (histogram_charts nr renders df numeric)"
  shows "\<exists>col. col \<in> set numeric
           \<and> col \<notin> set [''Age'', ''Fare'', ''PassengerId'', ''Survived'', ''Pclass'']
           \<and> 0 < notna_count (column_cells df col)
           \<and> chart_column c = Some col
           \<and> chart_histograms c = [(dropna (column_cells df col), 30)]"
proof -
  from assms obtain i col where m: "(i, col) \<in> set (enumerate 0 numeric)"
    and g: "col \<notin> set [''Age'', ''Fare'', ''PassengerId'', ''Survived'', ''Pclass'']"
           "0 < notna_count (column_cells df col)"
    and c: "c \<in> set (appended (create_premium_histogram nr renders df col i))"
    unfolding histogram_charts_def by (auto split: if_splits)
  from m have "col \<in> set numeric" by (auto simp add: in_set_enumerate_eq)
  moreover from c have "chart_column c = Some col
      \<and> chart_histograms c = [(dropna (column_cells df col), 30)]"
    by (cases "getitem df col")
       (auto simp add: create_premium_histogram_def column_cells_def appended_def finish_def Let_def
         split: if_splits)
  ultimately show ?thesis using g by blast
qed

lemma generate_premium_charts_histogram:
  assumes "df < length h"
    and "c \<in> set (snd (generate_premium_charts nr renders h df))"
    and "chart_type c = ''histogram''"
  shows "c \<in> set (histogram_charts nr renders (h ! df) (numeric_cols (h ! df)))"
proof -
  obtain h1 a n1 where A:
    "(if has_column (h ! df) ''Age''
      then create_age_distribution_chart nr renders h df else (h, None)) = (h1, a)"
    and h1: "h1 = h @ n1"
    by (rule age_step)
  obtain h2 f n2 where F:
    "(if has_column (h1 ! df) ''SibSp'' \<and> has_column (h1 ! df) ''Parch''
      then create_family_analysis_chart nr renders h1 df else (h1, None)) = (h2, f)"
    and h2: "h2 = h1 @ n2"
    by (rule family_step)
  from assms(1) h1 h2 have same: "h1 ! df = h ! df" "h2 ! df = h ! df"
    by (simp_all add: nth_append)
  have a: "c \<notin> set (appended a)"
  proof (cases "has_column (h ! df) ''Age''")
    case True
    with A have "a = snd (create_age_distribution_chart nr renders h df)" by simp
    with assms(3) show ?thesis by (auto dest: age_not_histogram)
  next
    case False
    with A show ?thesis by (simp add: appended_def)
  qed
  have f: "c \<notin> set (appended f)"
  proof (cases "has_column (h1 ! df) ''SibSp'' \<and> has_column (h1 ! df) ''Parch''")
    case True
    with F have "f = snd (create_family_analysis_chart nr renders h1 df)" by simp
    with assms(3) show ?thesis by (auto dest: family_not_histogram)
  next
    case False
    with F show ?thesis by (simp add: appended_def)
  qed
  from assms(2) have "c \<in> set (snd (generate_premium_charts nr renders h df))" .
  then have "c \<in> set (appended (create_data_overview_chart nr renders (h ! df)))
      \<or> c \<in> set (appended (create_survival_analysis_chart nr renders (h ! df)))
      \<or> c \<in> set (appended a)
      \<or> c \<in> set (appended (create_class_analysis_chart nr renders (h ! df)))
      \<or> c \<in> set (appended (create_gender_analysis_chart nr renders (h ! df)))
      \<or> c \<in> set (appended (create_fare_analysis_chart nr renders (h ! df)))
      \<or> c \<in> set (appended (create_embarkation_analysis_chart nr renders (h ! df)))
      \<or> c \<in> set (appended f)
      \<or> c \<in> set (histogram_charts nr renders (h ! df) (numeric_cols (h ! df)))
      \<or> c \<in> set (categorical_charts nr renders (h ! df) (categorical_cols (h ! df)))
      \<or> c \<in> set (appended (create_premium_correlation_heatmap nr renders (h ! df) (numeric_cols (h ! df))))"
    unfolding generate_premium_charts_def Let_def A prod.case F snd_conv
    by (simp add: same set_if_Nil del: set_simps) blast
  moreover from assms(3)
  have "c \<notin> set (appended (create_data_overview_chart nr renders (h ! df)))"
    by (auto dest: overview_not_histogram)
  moreover from assms(3)
  have "c \<notin> set (appended (create_survival_analysis_chart nr renders (h ! df)))"
    by (auto dest: survival_not_histogram)
  moreover from assms(3)
  have "c \<notin> set (appended (create_class_analysis_chart nr renders (h ! df)))"
    by (auto dest: class_not_histogram)
  moreover from assms(3)
  have "c \<notin> set (appended (create_gender_analysis_chart nr renders (h ! df)))"
    by (auto dest: gender_not_histogram)
  moreover from assms(3)
  have "c \<notin> set (appended (create_fare_analysis_chart nr renders (h ! df)))"
    by (auto dest: fare_not_histogram)
  moreover from assms(3)
  have "c \<notin> set (appended (create_embarkation_analysis_chart nr renders (h ! df)))"
    by (auto dest: embarkation_not_histogram)
  moreover from assms(3)
  have "c \<notin> set (categorical_charts nr renders (h ! df) (categorical_cols (h ! df)))"
    by (auto dest: categorical_not_histogram)
  moreover from assms(3)
  have "c \<notin> set (appended (create_premium_correlation_heatmap nr renders (h ! df) (numeric_cols (h ! df))))"
    by (auto dest: heatmap_not_histogram)
  ultimately show ?thesis using a f by blast
qed

lemma null_fare_catalogue:
  "map (\<lambda>c. (chart_type c, chart_column c, chart_histograms c))
       (snd (generate_premium_charts plain_narrator (\<lambda>c. True) [null_fare] 0))
   = [(''overview'', None, []),
      (''fare_analysis'', None, [([], 50)]),
      (''histogram'', Some ''Height'', [([Num 170], 30)])]"
  by code_simp

text \<open>
  Claim C7. Every per-column histogram of the catalogue (an entry of type \<open>histogram\<close>) is
  for a numeric column of the analysed table that has at least one non-null value, and its
  trace holds the non-null values of that column in 30 bins.
\<close>

theorem per_column_histograms_have_data:
  assumes "df < length h"
    and "c \<in> set (snd (generate_premium_charts nr renders h df))"
    and "chart_type c = ''histogram''"
  shows "\<exists>col. col \<in> set (numeric_cols (h ! df))
           \<and> 0 < notna_count (column_cells (h ! df) col)
           \<and> chart_column c = Some col
           \<and> chart_histograms c = [(dropna (column_cells (h ! df) col), 30)]"
proof -
  from assms have "c \<in> set (histogram_charts nr renders (h ! df) (numeric_cols (h ! df)))"
    by (rule generate_premium_charts_histogram)
  from histogram_charts_entry [OF this] show ?thesis by blast
qed

theorem per_column_histograms_have_data_witness:
  "(0::nat) < length [null_fare]
   \<and> (\<exists>c. c \<in> set (snd (generate_premium_charts plain_narrator (\<lambda>c. True) [null_fare] 0))
          \<and> chart_type c = ''histogram''
          \<and> (\<exists>col. col \<in> set (numeric_cols ([null_fare] ! 0))
                \<and> 0 < notna_count (column_cells ([null_fare] ! 0) col)
                \<and> chart_column c = Some col
                \<and> chart_histograms c = [(dropna (column_cells ([null_fare] ! 0) col), 30)]))"
proof -
  have "\<exists>c. c \<in> set (snd (generate_premium_charts plain_narrator (\<lambda>c. True) [null_fare] 0))
          \<and> chart_type c = ''histogram''"
    using null_fare_catalogue by (auto simp add: map_eq_Cons_conv)
  then obtain c where c: "c \<in> set (snd (generate_premium_charts plain_narrator (\<lambda>c. True) [null_fare] 0))"
    "chart_type c = ''histogram''" by blast
  from per_column_histograms_have_data [of 0 "[null_fare]" c plain_narrator "\<lambda>c. True"] c
  show ?thesis by auto
qed

text \<open>
  The dedicated fare chart is gated on the presence of the column only: for a numeric
  \<open>Fare\<close> column without a single value the catalogue holds a histogram trace over no data.
\<close>

theorem fare_histogram_without_data:
  "''Fare'' \<in> set (numeric_cols null_fare)
   \<and> notna_count (column_cells null_fare ''Fare'') = 0
   \<and> map (\<lambda>c. (chart_type c, chart_histograms c))
          (snd (generate_premium_charts plain_narrator (\<lambda>c. True) [null_fare] 0))
      = [(''overview'', []), (''fare_analysis'', [([], 50)]), (''histogram'', [([Num 170], 30)])]"
  by code_simp

end
